theory Spec2Isabelle
  imports Complex_Main "HOL-Library.AList"
begin

section \<open>Funding-rate arbitrage strategy: data model\<close>

text \<open>
  The embedding follows \<^verbatim>\<open>pkg/strategy/funding_rate_arb.go\<close> and the types of
  \<^verbatim>\<open>pkg/exchange/exchange.go\<close> and \<^verbatim>\<open>config/config.go\<close>.

  Conventions of the model:
  \<^item> Go's \<^verbatim>\<open>float64\<close> rates, sizes and prices are exact reals: rounding, infinities
    and NaN are outside the model.
  \<^item> Go's \<^verbatim>\<open>error\<close> is its message; a call returning \<^verbatim>\<open>(x, err)\<close> returns
    \<open>error + 'a\<close>, with \<open>Inl\<close> for a non-nil error.
  \<^item> The two venue clients held by the strategy (\<^verbatim>\<open>s.exchange1\<close>, \<^verbatim>\<open>s.exchange2\<close>)
    are the handles \<open>Exchange1\<close> and \<open>Exchange2\<close>. What a venue answers is not code
    of the strategy: it is given by an environment of type \<open>venues\<close>, whose answers may
    depend on everything that happened before the call.
  \<^item> The map \<^verbatim>\<open>s.positions\<close> is an association list read with \<open>map_of\<close> and written
    with \<open>AList.update\<close> and \<open>AList.delete\<close>.
  \<^item> Every call that leaves the strategy and every write to the ledger is appended to
    \<open>trace\<close>, in program order. Log lines are not recorded: they change no state.
  \<^item> The strategy runs on one goroutine (\<^verbatim>\<open>Run\<close> calls \<^verbatim>\<open>checkFundingRates\<close> from
    its own loop), so the mutex \<^verbatim>\<open>s.mu\<close> has no counterpart here.
\<close>

type_synonym error = string

datatype OrderSide = Buy | Sell

text \<open>\<^verbatim>\<open>exchange.Market\<close> is \<open>MarketType\<close>: \<open>Market\<close> is the field of \<open>PositionInfo\<close>.\<close>

datatype OrderType = Limit | MarketType

text \<open>The field \<^verbatim>\<open>Market\<close> of \<^verbatim>\<open>Order\<close> is \<open>OrderMarket\<close>, that of \<^verbatim>\<open>FundingRate\<close> is \<open>RateMarket\<close>.\<close>

record Order =
  ID :: string
  OrderMarket :: string
  Side :: OrderSide
  Type :: OrderType
  Price :: real
  Amount :: real
  Filled :: real
  Status :: string
  Timestamp :: int

record FundingRate =
  RateMarket :: string
  Rate :: real
  NextTime :: int

datatype exchange = Exchange1 | Exchange2

record PositionInfo =
  Market :: string
  LongExchange :: exchange
  ShortExchange :: exchange
  SizeUSD :: real

record Config =
  LighterAPIKey :: string
  LighterPrivateKey :: string
  ExtendedAPIKey :: string
  Testnet :: bool
  Markets :: "string list"
  MinFundingRateDiff :: real
  PositionSizeUSD :: real
  MaxPositionUSD :: real

datatype event =
    Ev_GetFundingRates exchange
  | Ev_PlaceOrder exchange string OrderSide OrderType real real
  | Ev_ClosePosition exchange string OrderSide real
  | Ev_SendPositionNotification string string string real "error option"
  | Ev_insert string
  | Ev_delete string

text \<open>
  The methods of the interface \<^verbatim>\<open>exchange.Exchange\<close> that the strategy calls. Each
  takes the venue's handle and the trace at the moment of the call.
\<close>

record venues =
  Name :: "exchange \<Rightarrow> string"
  GetFundingRates :: "exchange \<Rightarrow> event list \<Rightarrow> error + FundingRate list"
  PlaceOrder :: "exchange \<Rightarrow> event list \<Rightarrow> string \<Rightarrow> OrderSide \<Rightarrow> OrderType \<Rightarrow> real \<Rightarrow> real
    \<Rightarrow> error + Order"
  ClosePosition :: "exchange \<Rightarrow> event list \<Rightarrow> string \<Rightarrow> OrderSide \<Rightarrow> real \<Rightarrow> error + Order"

record Strategy =
  config :: Config
  positions :: "(string \<times> PositionInfo) list"
  trace :: "event list"

section \<open>Operations\<close>

definition NewFundingRateArb :: "Config \<Rightarrow> Strategy" where
  "NewFundingRateArb cfg = \<lparr>config = cfg, positions = [], trace = []\<rparr>"

definition emit :: "event \<Rightarrow> Strategy \<Rightarrow> Strategy" where
  "emit e s = s\<lparr>trace := trace s @ [e]\<rparr>"

definition errOf :: "error + 'a \<Rightarrow> error option" where
  "errOf r = (case r of Inl e \<Rightarrow> Some e | Inr _ \<Rightarrow> None)"

text \<open>\<^verbatim>\<open>getTotalPositionValue\<close>: the loop adds \<^verbatim>\<open>pos.SizeUSD\<close> of every entry to 0.\<close>

definition getTotalPositionValue :: "Strategy \<Rightarrow> real" where
  "getTotalPositionValue s =
     fold (\<lambda>pos totalValue. totalValue + SizeUSD (snd pos)) (positions s) 0"

text \<open>
  The placeholder price that \<^verbatim>\<open>executeArbitrage\<close> and \<^verbatim>\<open>closeArbitrage\<close> both
  compute inline; \<open>None\<close> is the branch that logs "No placeholder price" and returns.
\<close>

definition currentPrice :: "string \<Rightarrow> real option" where
  "currentPrice market =
     (if market = ''BTC-USD'' then Some 60000
      else if market = ''ETH-USD'' then Some 3000
      else None)"

definition executeArbitrage ::
  "venues \<Rightarrow> string \<Rightarrow> exchange \<Rightarrow> exchange \<Rightarrow> real \<Rightarrow> Strategy \<Rightarrow> Strategy" where
  "executeArbitrage env market longEx shortEx rateDiff s =
     (if map_of (positions s) market \<noteq> None then s
      else if getTotalPositionValue s + PositionSizeUSD (config s) > MaxPositionUSD (config s)
      then s
      else case currentPrice market of
        None \<Rightarrow> s
      | Some price \<Rightarrow>
          let amount = PositionSizeUSD (config s) / price;
              longRes = PlaceOrder env longEx (trace s) market Buy MarketType amount price;
              s1 = emit (Ev_PlaceOrder longEx market Buy MarketType amount price) s;
              s2 = emit (Ev_SendPositionNotification ''OPEN LONG'' (Name env longEx) market
                           (PositionSizeUSD (config s)) (errOf longRes)) s1
          in case longRes of
               Inl err \<Rightarrow> s2
             | Inr longOrder \<Rightarrow>
                 let shortRes = PlaceOrder env shortEx (trace s2) market Sell MarketType amount price;
                     s3 = emit (Ev_PlaceOrder shortEx market Sell MarketType amount price) s2;
                     s4 = emit (Ev_SendPositionNotification ''OPEN SHORT'' (Name env shortEx) market
                                  (PositionSizeUSD (config s)) (errOf shortRes)) s3
                 in case shortRes of
                      Inl err \<Rightarrow> s4
                    | Inr shortOrder \<Rightarrow>
                        emit (Ev_insert market)
                          (s4\<lparr>positions := AList.update market
                                \<lparr>Market = market, LongExchange = longEx, ShortExchange = shortEx,
                                 SizeUSD = PositionSizeUSD (config s)\<rparr> (positions s4)\<rparr>))"

definition closeArbitrage :: "venues \<Rightarrow> PositionInfo \<Rightarrow> Strategy \<Rightarrow> Strategy" where
  "closeArbitrage env position s =
     (if map_of (positions s) (Market position) = None then s
      else
        let s1 = emit (Ev_delete (Market position))
                   (s\<lparr>positions := AList.delete (Market position) (positions s)\<rparr>)
        in case currentPrice (Market position) of
             None \<Rightarrow> s1
           | Some price \<Rightarrow>
               let amount = SizeUSD position / price;
                   longRes = ClosePosition env (LongExchange position) (trace s1)
                               (Market position) Buy amount;
                   s2 = emit (Ev_ClosePosition (LongExchange position) (Market position) Buy amount) s1;
                   s3 = emit (Ev_SendPositionNotification ''CLOSE LONG''
                                (Name env (LongExchange position)) (Market position)
                                (SizeUSD position) (errOf longRes)) s2;
                   shortRes = ClosePosition env (ShortExchange position) (trace s3)
                                (Market position) Sell amount;
                   s4 = emit (Ev_ClosePosition (ShortExchange position) (Market position) Sell amount) s3
               in emit (Ev_SendPositionNotification ''CLOSE SHORT''
                          (Name env (ShortExchange position)) (Market position)
                          (SizeUSD position) (errOf shortRes)) s4)"

text \<open>
  The branch that the body of the loop of \<^verbatim>\<open>checkFundingRates\<close> takes for one market
  present in both lookups, as a value: \<open>Open longEx shortEx rateDiff\<close> is the call
  \<^verbatim>\<open>s.executeArbitrage(market, longEx, shortEx, rateDiff)\<close>, \<open>Close position\<close> is the call
  \<^verbatim>\<open>s.closeArbitrage(position)\<close>, \<open>NoAction\<close> is falling through.
\<close>

datatype action = Open exchange exchange real | Close PositionInfo | NoAction

definition decide ::
  "venues \<Rightarrow> Config \<Rightarrow> (string \<times> PositionInfo) list \<Rightarrow> string \<Rightarrow> real \<Rightarrow> real \<Rightarrow> action" where
  "decide env cfg ps market rate1 rate2 =
     (let diff = rate1 - rate2;
          found = map_of ps market;
          exists = (found \<noteq> None)
      in if \<not> exists \<and> \<bar>diff\<bar> > MinFundingRateDiff cfg then
           (if diff > 0 then Open Exchange2 Exchange1 diff
            else Open Exchange1 Exchange2 (- diff))
         else if exists then
           (let position = the found;
                shouldClose = False;
                shouldClose = (if Name env (ShortExchange position) = Name env Exchange1 \<and> diff \<le> 0
                               then True else shouldClose);
                shouldClose = (if Name env (ShortExchange position) = Name env Exchange2 \<and> diff \<ge> 0
                               then True else shouldClose)
            in if shouldClose then Close position else NoAction)
         else NoAction)"

definition perform :: "venues \<Rightarrow> string \<Rightarrow> action \<Rightarrow> Strategy \<Rightarrow> Strategy" where
  "perform env market a s =
     (case a of
        Open longEx shortEx rateDiff \<Rightarrow> executeArbitrage env market longEx shortEx rateDiff s
      | Close position \<Rightarrow> closeArbitrage env position s
      | NoAction \<Rightarrow> s)"

text \<open>The lookups \<^verbatim>\<open>rates1Map\<close>, \<^verbatim>\<open>rates2Map\<close>: a later entry of a market overwrites.\<close>

definition ratesMap :: "FundingRate list \<Rightarrow> (string \<rightharpoonup> real)" where
  "ratesMap rates = fold (\<lambda>r m. m(RateMarket r \<mapsto> Rate r)) rates Map.empty"

text \<open>The loop over \<^verbatim>\<open>s.config.Markets\<close>.\<close>

fun checkMarkets ::
  "venues \<Rightarrow> (string \<rightharpoonup> real) \<Rightarrow> (string \<rightharpoonup> real) \<Rightarrow> string list \<Rightarrow> Strategy \<Rightarrow> Strategy" where
  "checkMarkets env rates1Map rates2Map [] s = s"
| "checkMarkets env rates1Map rates2Map (market # rest) s =
     checkMarkets env rates1Map rates2Map rest
       (case (rates1Map market, rates2Map market) of
          (Some rate1, Some rate2) \<Rightarrow>
            perform env market (decide env (config s) (positions s) market rate1 rate2) s
        | _ \<Rightarrow> s)"

definition checkFundingRates :: "venues \<Rightarrow> Strategy \<Rightarrow> Strategy" where
  "checkFundingRates env s =
     (let res1 = GetFundingRates env Exchange1 (trace s);
          s1 = emit (Ev_GetFundingRates Exchange1) s
      in case res1 of
           Inl err \<Rightarrow> s1
         | Inr rates1 \<Rightarrow>
             let res2 = GetFundingRates env Exchange2 (trace s1);
                 s2 = emit (Ev_GetFundingRates Exchange2) s1
             in case res2 of
                  Inl err \<Rightarrow> s2
                | Inr rates2 \<Rightarrow>
                    checkMarkets env (ratesMap rates1) (ratesMap rates2) (Markets (config s2)) s2)"

text \<open>\<^verbatim>\<open>Run\<close>: one call of \<^verbatim>\<open>checkFundingRates\<close> for each of \<open>n\<close> ticks.\<close>

fun Run :: "venues \<Rightarrow> nat \<Rightarrow> Strategy \<Rightarrow> Strategy" where
  "Run env 0 s = s"
| "Run env (Suc n) s = Run env n (checkFundingRates env s)"

section \<open>Reading a trace\<close>

text \<open>The orders placed in a trace, as venue and side, in the order of placement.\<close>

fun placedOrders :: "event list \<Rightarrow> (exchange \<times> OrderSide) list" where
  "placedOrders [] = []"
| "placedOrders (Ev_PlaceOrder ex market side typ amount price # es) = (ex, side) # placedOrders es"
| "placedOrders (_ # es) = placedOrders es"

text \<open>The events that a step from \<open>s\<close> to \<open>s'\<close> appended to the trace.\<close>

definition newEvents :: "Strategy \<Rightarrow> Strategy \<Rightarrow> event list" where
  "newEvents s s' = drop (length (trace s)) (trace s')"

text \<open>
  The ledger as the Go map has it: one entry for a key, and every position stored under
  the market it names.
\<close>

definition ledgerInv :: "(string \<times> PositionInfo) list \<Rightarrow> bool" where
  "ledgerInv ps \<longleftrightarrow> distinct (map fst ps) \<and> (\<forall>entry \<in> set ps. Market (snd entry) = fst entry)"

section \<open>Concrete inputs\<close>

text \<open>
  A configuration with one market, threshold 0.0001, position size 20 and cap 100; venues
  named as the clients of \<^verbatim>\<open>cmd/trade/trade.go\<close> are, whose answers are fixed per
  venue: the rates of \<^verbatim>\<open>BTC-USD\<close>, and whether placing and closing fail.
\<close>

definition exampleConfig :: Config where
  "exampleConfig =
     \<lparr>LighterAPIKey = '''', LighterPrivateKey = '''', ExtendedAPIKey = '''', Testnet = True,
      Markets = [''BTC-USD''], MinFundingRateDiff = 1 / 10000, PositionSizeUSD = 20,
      MaxPositionUSD = 100\<rparr>"

definition exampleRates :: "real \<Rightarrow> real \<Rightarrow> exchange \<Rightarrow> error + FundingRate list" where
  "exampleRates rate1 rate2 ex =
     Inr [\<lparr>RateMarket = ''BTC-USD'',
           Rate = (case ex of Exchange1 \<Rightarrow> rate1 | Exchange2 \<Rightarrow> rate2), NextTime = 0\<rparr>]"

definition exampleOrder :: "string \<Rightarrow> OrderSide \<Rightarrow> real \<Rightarrow> real \<Rightarrow> Order" where
  "exampleOrder market side amount price =
     \<lparr>ID = ''1'', OrderMarket = market, Side = side, Type = MarketType, Price = price,
      Amount = amount, Filled = amount, Status = ''FILLED'', Timestamp = 0\<rparr>"

definition exampleVenues ::
  "(exchange \<Rightarrow> error + FundingRate list) \<Rightarrow> (exchange \<Rightarrow> error option) \<Rightarrow> (exchange \<Rightarrow> error option)
     \<Rightarrow> venues" where
  "exampleVenues rates placeErr closeErr =
     \<lparr>Name = (\<lambda>ex. case ex of Exchange1 \<Rightarrow> ''Lighter'' | Exchange2 \<Rightarrow> ''Extended''),
      GetFundingRates = (\<lambda>ex tr. rates ex),
      PlaceOrder = (\<lambda>ex tr market side typ amount price.
         case placeErr ex of Some err \<Rightarrow> Inl err | None \<Rightarrow> Inr (exampleOrder market side amount price)),
      ClosePosition = (\<lambda>ex tr market side amount.
         case closeErr ex of Some err \<Rightarrow> Inl err | None \<Rightarrow> Inr (exampleOrder market side amount 0))\<rparr>"

definition examplePosition :: "string \<Rightarrow> exchange \<Rightarrow> exchange \<Rightarrow> real \<Rightarrow> PositionInfo" where
  "examplePosition market longEx shortEx sizeUSD =
     \<lparr>Market = market, LongExchange = longEx, ShortExchange = shortEx, SizeUSD = sizeUSD\<rparr>"

text \<open>A strategy with the example configuration, a given ledger and no history.\<close>

definition exampleStrategy :: "(string \<times> PositionInfo) list \<Rightarrow> Strategy" where
  "exampleStrategy ps = \<lparr>config = exampleConfig, positions = ps, trace = []\<rparr>"

section \<open>The operations, case by case\<close>

lemma fold_add_sum:
  "fold (\<lambda>pos totalValue. totalValue + f pos) xs (a::real) = a + sum_list (map f xs)"
  by (induction xs arbitrary: a) simp_all

lemma getTotalPositionValue_sum:
  "getTotalPositionValue s = sum_list (map (\<lambda>pos. SizeUSD (snd pos)) (positions s))"
  by (simp add: getTotalPositionValue_def fold_add_sum)

lemma decide_absent:
  "map_of ps market = None \<Longrightarrow>
   decide env cfg ps market rate1 rate2 =
     (if \<bar>rate1 - rate2\<bar> > MinFundingRateDiff cfg
      then (if rate1 - rate2 > 0 then Open Exchange2 Exchange1 (rate1 - rate2)
            else Open Exchange1 Exchange2 (- (rate1 - rate2)))
      else NoAction)"
  by (simp add: decide_def Let_def)

lemma decide_present:
  "map_of ps market = Some position \<Longrightarrow>
   decide env cfg ps market rate1 rate2 =
     (if (Name env (ShortExchange position) = Name env Exchange1 \<and> rate1 - rate2 \<le> 0)
         \<or> (Name env (ShortExchange position) = Name env Exchange2 \<and> rate1 - rate2 \<ge> 0)
      then Close position else NoAction)"
  by (auto simp: decide_def Let_def)

lemma executeArbitrage_exists:
  "map_of (positions s) market \<noteq> None \<Longrightarrow> executeArbitrage env market longEx shortEx rateDiff s = s"
  by (simp add: executeArbitrage_def)

lemma executeArbitrage_exposure:
  "getTotalPositionValue s + PositionSizeUSD (config s) > MaxPositionUSD (config s) \<Longrightarrow>
   executeArbitrage env market longEx shortEx rateDiff s = s"
  by (simp add: executeArbitrage_def)

lemma executeArbitrage_noPrice:
  "currentPrice market = None \<Longrightarrow> executeArbitrage env market longEx shortEx rateDiff s = s"
  by (simp add: executeArbitrage_def)

lemma executeArbitrage_longFails:
  assumes "map_of (positions s) market = None"
    and "\<not> getTotalPositionValue s + PositionSizeUSD (config s) > MaxPositionUSD (config s)"
    and "currentPrice market = Some price"
    and "PlaceOrder env longEx (trace s) market Buy MarketType (PositionSizeUSD (config s) / price) price
           = Inl err"
  shows "executeArbitrage env market longEx shortEx rateDiff s =
           s\<lparr>trace := trace s @
              [Ev_PlaceOrder longEx market Buy MarketType (PositionSizeUSD (config s) / price) price,
               Ev_SendPositionNotification ''OPEN LONG'' (Name env longEx) market
                 (PositionSizeUSD (config s)) (Some err)]\<rparr>"
  using assms by (simp add: executeArbitrage_def Let_def emit_def errOf_def)

lemma executeArbitrage_shortFails:
  assumes "map_of (positions s) market = None"
    and "\<not> getTotalPositionValue s + PositionSizeUSD (config s) > MaxPositionUSD (config s)"
    and "currentPrice market = Some price"
    and "PlaceOrder env longEx (trace s) market Buy MarketType (PositionSizeUSD (config s) / price) price
           = Inr longOrder"
    and "PlaceOrder env shortEx
           (trace s @
              [Ev_PlaceOrder longEx market Buy MarketType (PositionSizeUSD (config s) / price) price,
               Ev_SendPositionNotification ''OPEN LONG'' (Name env longEx) market
                 (PositionSizeUSD (config s)) None])
           market Sell MarketType (PositionSizeUSD (config s) / price) price = Inl err"
  shows "executeArbitrage env market longEx shortEx rateDiff s =
           s\<lparr>trace := trace s @
              [Ev_PlaceOrder longEx market Buy MarketType (PositionSizeUSD (config s) / price) price,
               Ev_SendPositionNotification ''OPEN LONG'' (Name env longEx) market
                 (PositionSizeUSD (config s)) None,
               Ev_PlaceOrder shortEx market Sell MarketType (PositionSizeUSD (config s) / price) price,
               Ev_SendPositionNotification ''OPEN SHORT'' (Name env shortEx) market
                 (PositionSizeUSD (config s)) (Some err)]\<rparr>"
  using assms by (simp add: executeArbitrage_def Let_def emit_def errOf_def)

lemma executeArbitrage_bothSucceed:
  assumes "map_of (positions s) market = None"
    and "\<not> getTotalPositionValue s + PositionSizeUSD (config s) > MaxPositionUSD (config s)"
    and "currentPrice market = Some price"
    and "PlaceOrder env longEx (trace s) market Buy MarketType (PositionSizeUSD (config s) / price) price
           = Inr longOrder"
    and "PlaceOrder env shortEx
           (trace s @
              [Ev_PlaceOrder longEx market Buy MarketType (PositionSizeUSD (config s) / price) price,
               Ev_SendPositionNotification ''OPEN LONG'' (Name env longEx) market
                 (PositionSizeUSD (config s)) None])
           market Sell MarketType (PositionSizeUSD (config s) / price) price = Inr shortOrder"
  shows "executeArbitrage env market longEx shortEx rateDiff s =
           s\<lparr>positions := AList.update market
                \<lparr>Market = market, LongExchange = longEx, ShortExchange = shortEx,
                 SizeUSD = PositionSizeUSD (config s)\<rparr> (positions s),
             trace := trace s @
              [Ev_PlaceOrder longEx market Buy MarketType (PositionSizeUSD (config s) / price) price,
               Ev_SendPositionNotification ''OPEN LONG'' (Name env longEx) market
                 (PositionSizeUSD (config s)) None,
               Ev_PlaceOrder shortEx market Sell MarketType (PositionSizeUSD (config s) / price) price,
               Ev_SendPositionNotification ''OPEN SHORT'' (Name env shortEx) market
                 (PositionSizeUSD (config s)) None,
               Ev_insert market]\<rparr>"
  using assms by (simp add: executeArbitrage_def Let_def emit_def errOf_def)

lemma newEvents_same: "newEvents s s = []"
  by (simp add: newEvents_def)

lemma newEvents_append: "trace s' = trace s @ es \<Longrightarrow> newEvents s s' = es"
  by (simp add: newEvents_def)

lemma executeArbitrage_cases:
  obtains (unchanged) "executeArbitrage env market longEx shortEx rateDiff s = s"
  | (longFails) price err where "currentPrice market = Some price"
      "executeArbitrage env market longEx shortEx rateDiff s =
           s\<lparr>trace := trace s @
              [Ev_PlaceOrder longEx market Buy MarketType (PositionSizeUSD (config s) / price) price,
               Ev_SendPositionNotification ''OPEN LONG'' (Name env longEx) market
                 (PositionSizeUSD (config s)) (Some err)]\<rparr>"
  | (shortFails) price err where "currentPrice market = Some price"
      "executeArbitrage env market longEx shortEx rateDiff s =
           s\<lparr>trace := trace s @
              [Ev_PlaceOrder longEx market Buy MarketType (PositionSizeUSD (config s) / price) price,
               Ev_SendPositionNotification ''OPEN LONG'' (Name env longEx) market
                 (PositionSizeUSD (config s)) None,
               Ev_PlaceOrder shortEx market Sell MarketType (PositionSizeUSD (config s) / price) price,
               Ev_SendPositionNotification ''OPEN SHORT'' (Name env shortEx) market
                 (PositionSizeUSD (config s)) (Some err)]\<rparr>"
  | (opened) price where "currentPrice market = Some price"
      "map_of (positions s) market = None"
      "getTotalPositionValue s + PositionSizeUSD (config s) \<le> MaxPositionUSD (config s)"
      "executeArbitrage env market longEx shortEx rateDiff s =
           s\<lparr>positions := AList.update market
                \<lparr>Market = market, LongExchange = longEx, ShortExchange = shortEx,
                 SizeUSD = PositionSizeUSD (config s)\<rparr> (positions s),
             trace := trace s @
              [Ev_PlaceOrder longEx market Buy MarketType (PositionSizeUSD (config s) / price) price,
               Ev_SendPositionNotification ''OPEN LONG'' (Name env longEx) market
                 (PositionSizeUSD (config s)) None,
               Ev_PlaceOrder shortEx market Sell MarketType (PositionSizeUSD (config s) / price) price,
               Ev_SendPositionNotification ''OPEN SHORT'' (Name env shortEx) market
                 (PositionSizeUSD (config s)) None,
               Ev_insert market]\<rparr>"
proof (cases "map_of (positions s) market \<noteq> None
     \<or> getTotalPositionValue s + PositionSizeUSD (config s) > MaxPositionUSD (config s)
     \<or> currentPrice market = None")
  case True
  then have "executeArbitrage env market longEx shortEx rateDiff s = s"
    using executeArbitrage_exists executeArbitrage_exposure executeArbitrage_noPrice by blast
  then show ?thesis by (rule unchanged)
next
  case False
  then obtain price where g: "map_of (positions s) market = None"
    "\<not> getTotalPositionValue s + PositionSizeUSD (config s) > MaxPositionUSD (config s)"
    "currentPrice market = Some price" by auto
  show ?thesis
  proof (cases "PlaceOrder env longEx (trace s) market Buy MarketType (PositionSizeUSD (config s) / price) price")
    case (Inl err)
    from executeArbitrage_longFails[OF g Inl] g(3) show ?thesis by (rule longFails[rotated])
  next
    case (Inr longOrder)
    show ?thesis
    proof (cases "PlaceOrder env shortEx
           (trace s @
              [Ev_PlaceOrder longEx market Buy MarketType (PositionSizeUSD (config s) / price) price,
               Ev_SendPositionNotification ''OPEN LONG'' (Name env longEx) market
                 (PositionSizeUSD (config s)) None])
           market Sell MarketType (PositionSizeUSD (config s) / price) price")
      case (Inl err)
      from executeArbitrage_shortFails[OF g Inr Inl] g(3) show ?thesis by (rule shortFails[rotated])
    next
      case (Inr shortOrder)
      from g(2) have le: "getTotalPositionValue s + PositionSizeUSD (config s) \<le> MaxPositionUSD (config s)"
        by simp
      from executeArbitrage_bothSucceed[OF g \<open>PlaceOrder env longEx _ _ _ _ _ _ = Inr longOrder\<close> Inr]
      show ?thesis using g(3) g(1) le opened by blast
    qed
  qed
qed

lemma placedOrders_executeArbitrage:
  "set (placedOrders (newEvents s (executeArbitrage env market longEx shortEx rateDiff s)))
     \<subseteq> {(longEx, Buy), (shortEx, Sell)}"
  by (cases rule: executeArbitrage_cases[of env market longEx shortEx rateDiff s])
     (simp_all add: newEvents_def)

lemma closeArbitrage_absent:
  "map_of (positions s) (Market position) = None \<Longrightarrow> closeArbitrage env position s = s"
  by (simp add: closeArbitrage_def)

lemma closeArbitrage_noPrice:
  assumes "map_of (positions s) (Market position) \<noteq> None"
    and "currentPrice (Market position) = None"
  shows "closeArbitrage env position s =
           s\<lparr>positions := AList.delete (Market position) (positions s),
             trace := trace s @ [Ev_delete (Market position)]\<rparr>"
  using assms by (auto simp: closeArbitrage_def Let_def emit_def)

lemma closeArbitrage_priced:
  assumes "map_of (positions s) (Market position) \<noteq> None"
    and "currentPrice (Market position) = Some price"
  shows "closeArbitrage env position s =
           s\<lparr>positions := AList.delete (Market position) (positions s),
             trace := trace s @
               [Ev_delete (Market position),
                Ev_ClosePosition (LongExchange position) (Market position) Buy (SizeUSD position / price),
                Ev_SendPositionNotification ''CLOSE LONG'' (Name env (LongExchange position))
                  (Market position) (SizeUSD position)
                  (errOf (ClosePosition env (LongExchange position)
                            (trace s @ [Ev_delete (Market position)])
                            (Market position) Buy (SizeUSD position / price))),
                Ev_ClosePosition (ShortExchange position) (Market position) Sell (SizeUSD position / price),
                Ev_SendPositionNotification ''CLOSE SHORT'' (Name env (ShortExchange position))
                  (Market position) (SizeUSD position)
                  (errOf (ClosePosition env (ShortExchange position)
                            (trace s @
                               [Ev_delete (Market position),
                                Ev_ClosePosition (LongExchange position) (Market position) Buy
                                  (SizeUSD position / price),
                                Ev_SendPositionNotification ''CLOSE LONG''
                                  (Name env (LongExchange position)) (Market position)
                                  (SizeUSD position)
                                  (errOf (ClosePosition env (LongExchange position)
                                            (trace s @ [Ev_delete (Market position)])
                                            (Market position) Buy (SizeUSD position / price)))])
                            (Market position) Sell (SizeUSD position / price)))]\<rparr>"
  using assms by (auto simp: closeArbitrage_def Let_def emit_def)

lemma placedOrders_closeArbitrage:
  "placedOrders (newEvents s (closeArbitrage env position s)) = []"
proof (cases "map_of (positions s) (Market position)")
  case None
  then show ?thesis by (simp add: closeArbitrage_absent newEvents_def)
next
  case (Some p)
  then have present: "map_of (positions s) (Market position) \<noteq> None" by simp
  show ?thesis
  proof (cases "currentPrice (Market position)")
    case None
    show ?thesis by (simp add: closeArbitrage_noPrice[OF present None] newEvents_def)
  next
    case (Some price)
    show ?thesis by (simp add: closeArbitrage_priced[OF present Some] newEvents_def)
  qed
qed

lemma checkMarkets_single:
  "rates1Map market = Some rate1 \<Longrightarrow> rates2Map market = Some rate2 \<Longrightarrow>
   checkMarkets env rates1Map rates2Map [market] s =
     perform env market (decide env (config s) (positions s) market rate1 rate2) s"
  by simp

lemma update_absent:
  "map_of ps k = None \<Longrightarrow> AList.update k v ps = ps @ [(k, v)]"
  by (induction ps) (auto split: if_splits)

lemma getTotalPositionValue_insert:
  assumes "map_of (positions s) market = None"
  shows "getTotalPositionValue (s\<lparr>positions := AList.update market p (positions s), trace := tr\<rparr>)
           = getTotalPositionValue s + SizeUSD p"
  using assms by (simp add: getTotalPositionValue_sum update_absent)

lemma ledgerInv_empty: "ledgerInv []"
  by (simp add: ledgerInv_def)

lemma ledgerInv_insert:
  "ledgerInv ps \<Longrightarrow> map_of ps market = None \<Longrightarrow> Market p = market \<Longrightarrow>
   ledgerInv (AList.update market p ps)"
  by (auto simp: ledgerInv_def update_absent map_of_eq_None_iff simp del: AList.update.simps)

lemma ledgerInv_delete:
  assumes "ledgerInv ps"
  shows "ledgerInv (AList.delete k ps)"
proof -
  have "distinct (map fst (AList.delete k ps))"
    using assms by (simp add: ledgerInv_def distinct_delete)
  moreover have "set (AList.delete k ps) \<subseteq> set ps"
    by (auto simp: AList.delete_eq)
  ultimately show ?thesis
    using assms by (auto simp: ledgerInv_def)
qed

lemma ledgerInv_executeArbitrage:
  assumes "ledgerInv (positions s)"
  shows "ledgerInv (positions (executeArbitrage env market longEx shortEx rateDiff s))"
proof (cases rule: executeArbitrage_cases [of env market longEx shortEx rateDiff s])
  case (opened price)
  then show ?thesis
    using assms by (simp add: ledgerInv_insert del: AList.update.simps)
qed (use assms in simp_all)

lemma positions_closeArbitrage:
  "positions (closeArbitrage env position s) =
     (if map_of (positions s) (Market position) = None then positions s
      else AList.delete (Market position) (positions s))"
proof (cases "map_of (positions s) (Market position)")
  case None
  then show ?thesis by (simp add: closeArbitrage_absent)
next
  case (Some p)
  note entry = this
  then have present: "map_of (positions s) (Market position) \<noteq> None" by simp
  show ?thesis
  proof (cases "currentPrice (Market position)")
    case None
    show ?thesis unfolding closeArbitrage_noPrice [OF present None] using entry by simp
  next
    case (Some price)
    show ?thesis unfolding closeArbitrage_priced [OF present Some] using entry by simp
  qed
qed

lemma ledgerInv_closeArbitrage:
  "ledgerInv (positions s) \<Longrightarrow> ledgerInv (positions (closeArbitrage env position s))"
  by (simp add: positions_closeArbitrage ledgerInv_delete)

lemma ledgerInv_perform:
  "ledgerInv (positions s) \<Longrightarrow> ledgerInv (positions (perform env market a s))"
  by (cases a) (simp_all add: perform_def ledgerInv_executeArbitrage ledgerInv_closeArbitrage)

lemma ledgerInv_checkMarkets:
  "ledgerInv (positions s) \<Longrightarrow>
   ledgerInv (positions (checkMarkets env rates1Map rates2Map markets s))"
proof (induction markets arbitrary: s)
  case Nil
  then show ?case by simp
next
  case (Cons market rest)
  show ?case
    by (cases "rates1Map market"; cases "rates2Map market")
       (simp_all add: Cons.IH Cons.prems ledgerInv_perform)
qed

lemma ledgerInv_checkFundingRates:
  "ledgerInv (positions s) \<Longrightarrow> ledgerInv (positions (checkFundingRates env s))"
  by (auto simp: checkFundingRates_def Let_def emit_def ledgerInv_checkMarkets split: sum.splits)

lemma ledgerInv_Run:
  "ledgerInv (positions s) \<Longrightarrow> ledgerInv (positions (Run env n s))"
  by (induction n arbitrary: s) (simp_all add: ledgerInv_checkFundingRates)

lemma distinct_keys_filter:
  "distinct (map fst ps) \<Longrightarrow> length (filter (\<lambda>entry. fst entry = k) ps) \<le> 1"
proof (induction ps)
  case Nil
  then show ?case by simp
next
  case (Cons e ps)
  show ?case
  proof (cases "fst e = k")
    case True
    from Cons.prems have "fst e \<notin> fst ` set ps" by simp
    with True have "\<forall>entry \<in> set ps. fst entry \<noteq> k" by blast
    then have "filter (\<lambda>entry. fst entry = k) ps = []" by (simp add: filter_empty_conv)
    with True show ?thesis by simp
  next
    case False
    with Cons show ?thesis by simp
  qed
qed

lemma ledgerInv_one_per_market:
  assumes "ledgerInv ps"
  shows "length (filter (\<lambda>entry. Market (snd entry) = market) ps) \<le> 1"
proof -
  have "filter (\<lambda>entry. Market (snd entry) = market) ps = filter (\<lambda>entry. fst entry = market) ps"
    using assms by (intro filter_cong) (auto simp: ledgerInv_def)
  then show ?thesis
    using assms distinct_keys_filter [of ps market] by (simp add: ledgerInv_def)
qed

lemma placedOrders_perform_present:
  assumes "map_of (positions s) market \<noteq> None"
  shows "placedOrders (newEvents s
           (perform env market (decide env (config s) (positions s) market rate1 rate2) s)) = []"
proof -
  from assms obtain position where "map_of (positions s) market = Some position" by auto
  then show ?thesis
    by (simp add: decide_present perform_def newEvents_same placedOrders_closeArbitrage)
qed

lemma example_cycle:
  "checkFundingRates (exampleVenues (exampleRates (5 / 10000) (1 / 10000)) (\<lambda>_. None) (\<lambda>_. None))
     (NewFundingRateArb exampleConfig)
   = \<lparr>config = exampleConfig,
      positions = [(''BTC-USD'', examplePosition ''BTC-USD'' Exchange2 Exchange1 20)],
      trace = [Ev_GetFundingRates Exchange1, Ev_GetFundingRates Exchange2,
               Ev_PlaceOrder Exchange2 ''BTC-USD'' Buy MarketType (20 / 60000) 60000,
               Ev_SendPositionNotification ''OPEN LONG'' ''Extended'' ''BTC-USD'' 20 None,
               Ev_PlaceOrder Exchange1 ''BTC-USD'' Sell MarketType (20 / 60000) 60000,
               Ev_SendPositionNotification ''OPEN SHORT'' ''Lighter'' ''BTC-USD'' 20 None,
               Ev_insert ''BTC-USD'']\<rparr>"
  by (simp add: checkFundingRates_def exampleVenues_def exampleRates_def NewFundingRateArb_def
      exampleConfig_def examplePosition_def emit_def ratesMap_def decide_def perform_def
      executeArbitrage_def getTotalPositionValue_def currentPrice_def errOf_def Let_def)

section \<open>The evaluator\<close>

text \<open>
  Claim C3 (direction law). Let a market be present in both lookups, with rates \<open>rateA\<close>
  on \<open>Exchange1\<close> and \<open>rateB\<close> on \<open>Exchange2\<close>. Whenever the loop body calls
  \<^verbatim>\<open>executeArbitrage\<close>, the magnitude it passes is \<open>\<bar>rateA - rateB\<bar>\<close>; for a positive
  differential the long venue is \<open>Exchange2\<close> and the short venue \<open>Exchange1\<close>, for a
  negative one the long venue is \<open>Exchange1\<close> and the short venue \<open>Exchange2\<close>. The
  orders that the iteration places are then only buys on the long venue and sells on the
  short venue.
\<close>

theorem direction_law:
  assumes "rates1Map market = Some rateA" and "rates2Map market = Some rateB"
  shows "(\<forall>longEx shortEx rateDiff.
            decide env (config s) (positions s) market rateA rateB = Open longEx shortEx rateDiff \<longrightarrow>
              rateDiff = \<bar>rateA - rateB\<bar>
              \<and> (rateA - rateB > 0 \<longrightarrow> longEx = Exchange2 \<and> shortEx = Exchange1)
              \<and> (rateA - rateB < 0 \<longrightarrow> longEx = Exchange1 \<and> shortEx = Exchange2))
       \<and> (rateA - rateB > 0 \<longrightarrow>
            set (placedOrders (newEvents s (checkMarkets env rates1Map rates2Map [market] s)))
              \<subseteq> {(Exchange2, Buy), (Exchange1, Sell)})
       \<and> (rateA - rateB < 0 \<longrightarrow>
            set (placedOrders (newEvents s (checkMarkets env rates1Map rates2Map [market] s)))
              \<subseteq> {(Exchange1, Buy), (Exchange2, Sell)})"
proof (cases "map_of (positions s) market")
  case None
  have step: "checkMarkets env rates1Map rates2Map [market] s =
      perform env market (decide env (config s) (positions s) market rateA rateB) s"
    using assms by (rule checkMarkets_single)
  show ?thesis
    unfolding step decide_absent[OF None]
    using placedOrders_executeArbitrage[of s env market Exchange2 Exchange1 "rateA - rateB"]
      placedOrders_executeArbitrage[of s env market Exchange1 Exchange2 "- (rateA - rateB)"]
    by (simp add: perform_def newEvents_same)
next
  case (Some position)
  have step: "checkMarkets env rates1Map rates2Map [market] s =
      perform env market (decide env (config s) (positions s) market rateA rateB) s"
    using assms by (rule checkMarkets_single)
  show ?thesis
    unfolding step decide_present[OF Some]
    by (simp add: perform_def newEvents_same placedOrders_closeArbitrage)
qed

theorem direction_law_witness:
  "decide (exampleVenues (exampleRates (5 / 10000) (1 / 10000)) (\<lambda>_. None) (\<lambda>_. None))
      (config (NewFundingRateArb exampleConfig)) (positions (NewFundingRateArb exampleConfig))
      ''BTC-USD'' (5 / 10000) (1 / 10000) = Open Exchange2 Exchange1 (4 / 10000)
   \<and> placedOrders (newEvents (NewFundingRateArb exampleConfig)
        (checkMarkets (exampleVenues (exampleRates (5 / 10000) (1 / 10000)) (\<lambda>_. None) (\<lambda>_. None))
           [''BTC-USD'' \<mapsto> 5 / 10000] [''BTC-USD'' \<mapsto> 1 / 10000] [''BTC-USD'']
           (NewFundingRateArb exampleConfig)))
      = [(Exchange2, Buy), (Exchange1, Sell)]
   \<and> placedOrders (newEvents (NewFundingRateArb exampleConfig)
        (checkMarkets (exampleVenues (exampleRates (1 / 10000) (5 / 10000)) (\<lambda>_. None) (\<lambda>_. None))
           [''BTC-USD'' \<mapsto> 1 / 10000] [''BTC-USD'' \<mapsto> 5 / 10000] [''BTC-USD'']
           (NewFundingRateArb exampleConfig)))
      = [(Exchange1, Buy), (Exchange2, Sell)]"
proof -
  let ?s = "NewFundingRateArb exampleConfig"
  let ?envA = "exampleVenues (exampleRates (5 / 10000) (1 / 10000)) (\<lambda>_. None) (\<lambda>_. None)"
  let ?envB = "exampleVenues (exampleRates (1 / 10000) (5 / 10000)) (\<lambda>_. None) (\<lambda>_. None)"
  have hi: "[''BTC-USD'' \<mapsto> 5 / 10000 :: real] ''BTC-USD'' = Some (5 / 10000)" by simp
  have lo: "[''BTC-USD'' \<mapsto> 1 / 10000 :: real] ''BTC-USD'' = Some (1 / 10000)" by simp
  have total: "getTotalPositionValue ?s = 0"
    by (simp add: getTotalPositionValue_def NewFundingRateArb_def)
  have openA: "decide ?envA (config ?s) (positions ?s) ''BTC-USD'' (5 / 10000) (1 / 10000)
      = Open Exchange2 Exchange1 (4 / 10000)"
    by (simp add: decide_def NewFundingRateArb_def exampleConfig_def)
  have openB: "decide ?envB (config ?s) (positions ?s) ''BTC-USD'' (1 / 10000) (5 / 10000)
      = Open Exchange1 Exchange2 (4 / 10000)"
    by (simp add: decide_def NewFundingRateArb_def exampleConfig_def)
  have exA: "\<exists>s'. executeArbitrage ?envA ''BTC-USD'' Exchange2 Exchange1 (4 / 10000) ?s = s'
      \<and> placedOrders (newEvents ?s s') = [(Exchange2, Buy), (Exchange1, Sell)]"
    by (subst executeArbitrage_bothSucceed [where price = 60000])
      (simp_all add: getTotalPositionValue_def NewFundingRateArb_def exampleConfig_def currentPrice_def exampleVenues_def
        newEvents_def)
  have exB: "\<exists>s'. executeArbitrage ?envB ''BTC-USD'' Exchange1 Exchange2 (4 / 10000) ?s = s'
      \<and> placedOrders (newEvents ?s s') = [(Exchange1, Buy), (Exchange2, Sell)]"
    by (subst executeArbitrage_bothSucceed [where price = 60000])
      (simp_all add: getTotalPositionValue_def NewFundingRateArb_def exampleConfig_def currentPrice_def exampleVenues_def
        newEvents_def)
  have runA: "placedOrders (newEvents ?s
        (checkMarkets ?envA [''BTC-USD'' \<mapsto> 5 / 10000] [''BTC-USD'' \<mapsto> 1 / 10000] [''BTC-USD''] ?s))
      = [(Exchange2, Buy), (Exchange1, Sell)]"
    unfolding checkMarkets_single [where rates1Map = "[''BTC-USD'' \<mapsto> 5 / 10000]"
          and rates2Map = "[''BTC-USD'' \<mapsto> 1 / 10000]" and market = "''BTC-USD''", OF hi lo]
        openA perform_def
    using exA by simp
  have runB: "placedOrders (newEvents ?s
        (checkMarkets ?envB [''BTC-USD'' \<mapsto> 1 / 10000] [''BTC-USD'' \<mapsto> 5 / 10000] [''BTC-USD''] ?s))
      = [(Exchange1, Buy), (Exchange2, Sell)]"
    unfolding checkMarkets_single [where rates1Map = "[''BTC-USD'' \<mapsto> 1 / 10000]"
          and rates2Map = "[''BTC-USD'' \<mapsto> 5 / 10000]" and market = "''BTC-USD''", OF lo hi]
        openB perform_def
    using exB by simp
  show ?thesis
    using direction_law [where rates1Map = "[''BTC-USD'' \<mapsto> 5 / 10000]"
          and rates2Map = "[''BTC-USD'' \<mapsto> 1 / 10000]" and market = "''BTC-USD''"
          and env = ?envA and s = ?s, OF hi lo]
      direction_law [where rates1Map = "[''BTC-USD'' \<mapsto> 1 / 10000]"
          and rates2Map = "[''BTC-USD'' \<mapsto> 5 / 10000]" and market = "''BTC-USD''"
          and env = ?envB and s = ?s, OF lo hi]
      openA runA runB
    by simp
qed





section \<open>Opening a position\<close>

text \<open>
  Claim C2 (exposure cap). An opening attempt for which the total of \<^verbatim>\<open>SizeUSD\<close> over the
  ledger plus \<^verbatim>\<open>PositionSizeUSD\<close> is strictly above \<^verbatim>\<open>MaxPositionUSD\<close> returns the
  strategy as it was: no order, no notification, the same ledger. An attempt that changes
  the ledger leaves a total exposure of at most \<^verbatim>\<open>MaxPositionUSD\<close>.
\<close>

theorem exposure_cap:
  "(getTotalPositionValue s + PositionSizeUSD (config s) > MaxPositionUSD (config s) \<longrightarrow>
      executeArbitrage env market longEx shortEx rateDiff s = s)
   \<and> (positions (executeArbitrage env market longEx shortEx rateDiff s) \<noteq> positions s \<longrightarrow>
        getTotalPositionValue (executeArbitrage env market longEx shortEx rateDiff s)
          \<le> MaxPositionUSD (config (executeArbitrage env market longEx shortEx rateDiff s)))"
proof (intro conjI impI)
  assume "getTotalPositionValue s + PositionSizeUSD (config s) > MaxPositionUSD (config s)"
  then show "executeArbitrage env market longEx shortEx rateDiff s = s"
    by (rule executeArbitrage_exposure)
next
  assume changed: "positions (executeArbitrage env market longEx shortEx rateDiff s) \<noteq> positions s"
  show "getTotalPositionValue (executeArbitrage env market longEx shortEx rateDiff s)
          \<le> MaxPositionUSD (config (executeArbitrage env market longEx shortEx rateDiff s))"
  proof (cases rule: executeArbitrage_cases [of env market longEx shortEx rateDiff s])
    case unchanged
    with changed show ?thesis by simp
  next
    case (longFails price err)
    with changed show ?thesis by simp
  next
    case (shortFails price err)
    with changed show ?thesis by simp
  next
    case (opened price)
    then show ?thesis
      by (simp add: getTotalPositionValue_insert del: AList.update.simps)
  qed
qed

theorem exposure_cap_witness:
  "getTotalPositionValue
     (exampleStrategy [(''ETH-USD'', examplePosition ''ETH-USD'' Exchange1 Exchange2 90)]) = 90
   \<and> executeArbitrage (exampleVenues (exampleRates 0 0) (\<lambda>_. None) (\<lambda>_. None)) ''BTC-USD''
        Exchange2 Exchange1 (4 / 10000)
        (exampleStrategy [(''ETH-USD'', examplePosition ''ETH-USD'' Exchange1 Exchange2 90)])
      = exampleStrategy [(''ETH-USD'', examplePosition ''ETH-USD'' Exchange1 Exchange2 90)]
   \<and> positions (executeArbitrage (exampleVenues (exampleRates 0 0) (\<lambda>_. None) (\<lambda>_. None)) ''BTC-USD''
        Exchange2 Exchange1 (4 / 10000)
        (exampleStrategy [(''ETH-USD'', examplePosition ''ETH-USD'' Exchange1 Exchange2 80)]))
      \<noteq> positions (exampleStrategy [(''ETH-USD'', examplePosition ''ETH-USD'' Exchange1 Exchange2 80)])
   \<and> getTotalPositionValue (executeArbitrage (exampleVenues (exampleRates 0 0) (\<lambda>_. None) (\<lambda>_. None))
        ''BTC-USD'' Exchange2 Exchange1 (4 / 10000)
        (exampleStrategy [(''ETH-USD'', examplePosition ''ETH-USD'' Exchange1 Exchange2 80)]))
      \<le> 100"
proof -
  let ?env = "exampleVenues (exampleRates 0 0) (\<lambda>_. None) (\<lambda>_. None)"
  let ?s90 = "exampleStrategy [(''ETH-USD'', examplePosition ''ETH-USD'' Exchange1 Exchange2 90)]"
  let ?s80 = "exampleStrategy [(''ETH-USD'', examplePosition ''ETH-USD'' Exchange1 Exchange2 80)]"
  have total90: "getTotalPositionValue ?s90 = 90"
    by (simp add: getTotalPositionValue_def exampleStrategy_def examplePosition_def)
  have over: "getTotalPositionValue ?s90 + PositionSizeUSD (config ?s90) > MaxPositionUSD (config ?s90)"
    by (simp add: total90) (simp add: exampleStrategy_def exampleConfig_def)
  have opened: "positions (executeArbitrage ?env ''BTC-USD'' Exchange2 Exchange1 (4 / 10000) ?s80)
      \<noteq> positions ?s80"
    by (subst executeArbitrage_bothSucceed [where price = 60000])
      (simp_all add: getTotalPositionValue_def exampleStrategy_def examplePosition_def
        exampleConfig_def currentPrice_def exampleVenues_def)
  have cfg: "MaxPositionUSD (config (executeArbitrage ?env ''BTC-USD'' Exchange2 Exchange1 (4 / 10000) ?s80))
      = 100"
    by (subst executeArbitrage_bothSucceed [where price = 60000])
      (simp_all add: getTotalPositionValue_def exampleStrategy_def examplePosition_def
        exampleConfig_def currentPrice_def exampleVenues_def)
  show ?thesis
    using total90 over opened cfg
      exposure_cap [of ?s90 ?env "''BTC-USD''" Exchange2 Exchange1 "4 / 10000"]
      exposure_cap [of ?s80 ?env "''BTC-USD''" Exchange2 Exchange1 "4 / 10000"]
    by simp
qed

text \<open>
  Claim C7 (leg atomicity). Take an opening attempt that reaches the placement of orders:
  no entry for the market, room under the cap, a price for the market. The ledger holds an
  entry for the market afterwards exactly when both placements succeeded, and it is the
  position with these venues and the configured size. When the long placement fails, the
  ledger is unchanged and the only events are that placement and its notification: the
  short leg is not attempted. When the long placement succeeds and the short one fails, the
  ledger is unchanged and the events are the two placements and their notifications:
  nothing cancels or closes the long leg.
\<close>

theorem leg_atomicity:
  assumes "map_of (positions s) market = None"
    and "getTotalPositionValue s + PositionSizeUSD (config s) \<le> MaxPositionUSD (config s)"
    and "currentPrice market = Some price"
    and "amount = PositionSizeUSD (config s) / price"
    and "longRes = PlaceOrder env longEx (trace s) market Buy MarketType amount price"
    and "shortRes = PlaceOrder env shortEx
           (trace s @
              [Ev_PlaceOrder longEx market Buy MarketType amount price,
               Ev_SendPositionNotification ''OPEN LONG'' (Name env longEx) market
                 (PositionSizeUSD (config s)) None])
           market Sell MarketType amount price"
    and "s' = executeArbitrage env market longEx shortEx rateDiff s"
  shows "(map_of (positions s') market \<noteq> None \<longleftrightarrow> errOf longRes = None \<and> errOf shortRes = None)
       \<and> (errOf longRes = None \<and> errOf shortRes = None \<longrightarrow>
            map_of (positions s') market
              = Some \<lparr>Market = market, LongExchange = longEx, ShortExchange = shortEx,
                       SizeUSD = PositionSizeUSD (config s)\<rparr>)
       \<and> (\<forall>err. errOf longRes = Some err \<longrightarrow>
            positions s' = positions s
            \<and> newEvents s s' =
                [Ev_PlaceOrder longEx market Buy MarketType amount price,
                 Ev_SendPositionNotification ''OPEN LONG'' (Name env longEx) market
                   (PositionSizeUSD (config s)) (Some err)])
       \<and> (\<forall>err. errOf longRes = None \<and> errOf shortRes = Some err \<longrightarrow>
            positions s' = positions s
            \<and> newEvents s s' =
                [Ev_PlaceOrder longEx market Buy MarketType amount price,
                 Ev_SendPositionNotification ''OPEN LONG'' (Name env longEx) market
                   (PositionSizeUSD (config s)) None,
                 Ev_PlaceOrder shortEx market Sell MarketType amount price,
                 Ev_SendPositionNotification ''OPEN SHORT'' (Name env shortEx) market
                   (PositionSizeUSD (config s)) (Some err)])"
proof -
  have guard: "\<not> getTotalPositionValue s + PositionSizeUSD (config s) > MaxPositionUSD (config s)"
    using assms(2) by simp
  show ?thesis
  proof (cases longRes)
    case (Inl err)
    then have l: "PlaceOrder env longEx (trace s) market Buy MarketType
        (PositionSizeUSD (config s) / price) price = Inl err"
      using assms(4,5) by simp
    show ?thesis
      unfolding assms(7) executeArbitrage_longFails [OF assms(1) guard assms(3) l]
      using assms(1,4) Inl by (simp add: errOf_def newEvents_def)
  next
    case (Inr longOrder)
    then have l: "PlaceOrder env longEx (trace s) market Buy MarketType
        (PositionSizeUSD (config s) / price) price = Inr longOrder"
      using assms(4,5) by simp
    show ?thesis
    proof (cases shortRes)
      case (Inl err)
      then have r: "PlaceOrder env shortEx
           (trace s @
              [Ev_PlaceOrder longEx market Buy MarketType (PositionSizeUSD (config s) / price) price,
               Ev_SendPositionNotification ''OPEN LONG'' (Name env longEx) market
                 (PositionSizeUSD (config s)) None])
           market Sell MarketType (PositionSizeUSD (config s) / price) price = Inl err"
        using assms(4,6) by simp
      show ?thesis
        unfolding assms(7) executeArbitrage_shortFails [OF assms(1) guard assms(3) l r]
        using assms(1,4) Inl \<open>longRes = Inr longOrder\<close> by (simp add: errOf_def newEvents_def)
    next
      case (Inr shortOrder)
      then have r: "PlaceOrder env shortEx
           (trace s @
              [Ev_PlaceOrder longEx market Buy MarketType (PositionSizeUSD (config s) / price) price,
               Ev_SendPositionNotification ''OPEN LONG'' (Name env longEx) market
                 (PositionSizeUSD (config s)) None])
           market Sell MarketType (PositionSizeUSD (config s) / price) price = Inr shortOrder"
        using assms(4,6) by simp
      show ?thesis
        unfolding assms(7) executeArbitrage_bothSucceed [OF assms(1) guard assms(3) l r]
        using Inr \<open>longRes = Inr longOrder\<close>
        by (simp add: errOf_def update_conv' del: AList.update.simps)
    qed
  qed
qed

theorem leg_atomicity_witness:
  "map_of (positions (executeArbitrage (exampleVenues (exampleRates 0 0) (\<lambda>_. None) (\<lambda>_. None))
       ''BTC-USD'' Exchange2 Exchange1 (4 / 10000) (NewFundingRateArb exampleConfig))) ''BTC-USD''
     = Some (examplePosition ''BTC-USD'' Exchange2 Exchange1 20)
   \<and> map_of (positions (executeArbitrage
       (exampleVenues (exampleRates 0 0) (\<lambda>ex. if ex = Exchange2 then Some ''rejected'' else None)
          (\<lambda>_. None))
       ''BTC-USD'' Exchange2 Exchange1 (4 / 10000) (NewFundingRateArb exampleConfig))) ''BTC-USD''
     = None
   \<and> placedOrders (newEvents (NewFundingRateArb exampleConfig) (executeArbitrage
       (exampleVenues (exampleRates 0 0) (\<lambda>ex. if ex = Exchange2 then Some ''rejected'' else None)
          (\<lambda>_. None))
       ''BTC-USD'' Exchange2 Exchange1 (4 / 10000) (NewFundingRateArb exampleConfig)))
     = [(Exchange2, Buy)]
   \<and> map_of (positions (executeArbitrage
       (exampleVenues (exampleRates 0 0) (\<lambda>ex. if ex = Exchange1 then Some ''rejected'' else None)
          (\<lambda>_. None))
       ''BTC-USD'' Exchange2 Exchange1 (4 / 10000) (NewFundingRateArb exampleConfig))) ''BTC-USD''
     = None
   \<and> placedOrders (newEvents (NewFundingRateArb exampleConfig) (executeArbitrage
       (exampleVenues (exampleRates 0 0) (\<lambda>ex. if ex = Exchange1 then Some ''rejected'' else None)
          (\<lambda>_. None))
       ''BTC-USD'' Exchange2 Exchange1 (4 / 10000) (NewFundingRateArb exampleConfig)))
     = [(Exchange2, Buy), (Exchange1, Sell)]"
proof -
  let ?s = "NewFundingRateArb exampleConfig"
  let ?ok = "exampleVenues (exampleRates 0 0) (\<lambda>_. None) (\<lambda>_. None)"
  let ?longFails = "exampleVenues (exampleRates 0 0)
      (\<lambda>ex. if ex = Exchange2 then Some ''rejected'' else None) (\<lambda>_. None)"
  let ?shortFails = "exampleVenues (exampleRates 0 0)
      (\<lambda>ex. if ex = Exchange1 then Some ''rejected'' else None) (\<lambda>_. None)"
  have absent: "map_of (positions ?s) ''BTC-USD'' = None"
    by (simp add: NewFundingRateArb_def)
  have room: "getTotalPositionValue ?s + PositionSizeUSD (config ?s) \<le> MaxPositionUSD (config ?s)"
    by (simp add: getTotalPositionValue_def NewFundingRateArb_def exampleConfig_def)
  have price: "currentPrice ''BTC-USD'' = Some 60000"
    by (simp add: currentPrice_def)
  have size: "PositionSizeUSD (config ?s) = 20"
    by (simp add: NewFundingRateArb_def exampleConfig_def)
  show ?thesis
    using leg_atomicity [OF absent room price refl refl refl refl, of ?ok Exchange2 Exchange1 "4 / 10000"]
      leg_atomicity [OF absent room price refl refl refl refl, of ?longFails Exchange2 Exchange1 "4 / 10000"]
      leg_atomicity [OF absent room price refl refl refl refl, of ?shortFails Exchange2 Exchange1 "4 / 10000"]
    by (simp add: exampleVenues_def errOf_def examplePosition_def size absent)
qed

text \<open>
  Claim C9 (reference price). The markets without a price are all markets other than
  \<^verbatim>\<open>BTC-USD\<close> and \<^verbatim>\<open>ETH-USD\<close>. An opening attempt on such a market returns the strategy
  as it was: no order and the same ledger. When the market has a price, the price is
  positive, and every order that the attempt places is for that market, at that price, for
  the amount \<^verbatim>\<open>PositionSizeUSD\<close> divided by the price.
\<close>

theorem reference_price:
  "(currentPrice market = None \<longleftrightarrow> market \<noteq> ''BTC-USD'' \<and> market \<noteq> ''ETH-USD'')
   \<and> (currentPrice market = None \<longrightarrow> executeArbitrage env market longEx shortEx rateDiff s = s)
   \<and> (\<forall>price. currentPrice market = Some price \<longrightarrow>
        price > 0
        \<and> (\<forall>ex m side typ amount p.
             Ev_PlaceOrder ex m side typ amount p
               \<in> set (newEvents s (executeArbitrage env market longEx shortEx rateDiff s)) \<longrightarrow>
             m = market \<and> p = price \<and> amount = PositionSizeUSD (config s) / price))"
proof (intro conjI impI allI)
  show "currentPrice market = None \<longleftrightarrow> market \<noteq> ''BTC-USD'' \<and> market \<noteq> ''ETH-USD''"
    by (simp add: currentPrice_def)
next
  assume "currentPrice market = None"
  then show "executeArbitrage env market longEx shortEx rateDiff s = s"
    by (rule executeArbitrage_noPrice)
next
  fix price assume "currentPrice market = Some price"
  then show "price > 0" by (auto simp: currentPrice_def split: if_splits)
next
  fix price ex m side ty amount p
  assume price: "currentPrice market = Some price"
    and ev: "Ev_PlaceOrder ex m side ty amount p
               \<in> set (newEvents s (executeArbitrage env market longEx shortEx rateDiff s))"
  have "m = market \<and> p = price \<and> amount = PositionSizeUSD (config s) / price"
    using ev price
    by (cases rule: executeArbitrage_cases [of env market longEx shortEx rateDiff s])
       (auto simp: newEvents_def)
  then show "m = market" and "p = price" and "amount = PositionSizeUSD (config s) / price"
    by simp_all
qed

theorem reference_price_witness:
  "executeArbitrage (exampleVenues (exampleRates 0 0) (\<lambda>_. None) (\<lambda>_. None)) ''SOL-USD''
       Exchange2 Exchange1 (4 / 10000) (NewFundingRateArb exampleConfig)
     = NewFundingRateArb exampleConfig
   \<and> newEvents (NewFundingRateArb exampleConfig)
       (executeArbitrage (exampleVenues (exampleRates 0 0) (\<lambda>_. None) (\<lambda>_. None)) ''ETH-USD''
          Exchange2 Exchange1 (4 / 10000) (NewFundingRateArb exampleConfig))
     = [Ev_PlaceOrder Exchange2 ''ETH-USD'' Buy MarketType (20 / 3000) 3000,
        Ev_SendPositionNotification ''OPEN LONG'' ''Extended'' ''ETH-USD'' 20 None,
        Ev_PlaceOrder Exchange1 ''ETH-USD'' Sell MarketType (20 / 3000) 3000,
        Ev_SendPositionNotification ''OPEN SHORT'' ''Lighter'' ''ETH-USD'' 20 None,
        Ev_insert ''ETH-USD'']"
proof -
  let ?s = "NewFundingRateArb exampleConfig"
  let ?env = "exampleVenues (exampleRates 0 0) (\<lambda>_. None) (\<lambda>_. None)"
  have none: "currentPrice ''SOL-USD'' = None" by (simp add: currentPrice_def)
  have some: "currentPrice ''ETH-USD'' = Some 3000" by (simp add: currentPrice_def)
  have size: "PositionSizeUSD (config ?s) = 20"
    by (simp add: NewFundingRateArb_def exampleConfig_def)
  have run: "newEvents ?s (executeArbitrage ?env ''ETH-USD'' Exchange2 Exchange1 (4 / 10000) ?s)
     = [Ev_PlaceOrder Exchange2 ''ETH-USD'' Buy MarketType (20 / 3000) 3000,
        Ev_SendPositionNotification ''OPEN LONG'' ''Extended'' ''ETH-USD'' 20 None,
        Ev_PlaceOrder Exchange1 ''ETH-USD'' Sell MarketType (20 / 3000) 3000,
        Ev_SendPositionNotification ''OPEN SHORT'' ''Lighter'' ''ETH-USD'' 20 None,
        Ev_insert ''ETH-USD'']"
    by (subst executeArbitrage_bothSucceed [where price = 3000])
      (simp_all add: getTotalPositionValue_def NewFundingRateArb_def exampleConfig_def
        currentPrice_def exampleVenues_def newEvents_def)
  have law: "\<forall>ex m side typ amount p.
         Ev_PlaceOrder ex m side typ amount p
           \<in> set (newEvents ?s (executeArbitrage ?env ''ETH-USD'' Exchange2 Exchange1 (4 / 10000) ?s)) \<longrightarrow>
         amount = 20 / 3000"
  proof (intro allI impI)
    fix ex m side ty amount p
    assume "Ev_PlaceOrder ex m side ty amount p
           \<in> set (newEvents ?s (executeArbitrage ?env ''ETH-USD'' Exchange2 Exchange1 (4 / 10000) ?s))"
    with reference_price [of "''ETH-USD''" ?env Exchange2 Exchange1 "4 / 10000" ?s] some
    have "amount = PositionSizeUSD (config ?s) / 3000" by blast
    then show "amount = 20 / 3000" unfolding size .
  qed
  have abort: "executeArbitrage ?env ''SOL-USD'' Exchange2 Exchange1 (4 / 10000) ?s = ?s"
    using reference_price [of "''SOL-USD''" ?env Exchange2 Exchange1 "4 / 10000" ?s] none
    by simp
  show ?thesis using abort run law by blast
qed

section \<open>Closing a position\<close>

text \<open>
  Claim C8 (closing sequence). A close whose market has no entry in the ledger returns the
  strategy as it was, with no call. A close whose market has an entry removes the entry,
  and the removal is the first thing it does: every call comes later in the trace. When the
  market has a price, the close calls \<^verbatim>\<open>ClosePosition\<close> on the long venue and then on the
  short venue, each followed by its notification, whatever either call answers; the entry
  stays removed in every case.
\<close>

theorem closing_sequence:
  "(map_of (positions s) (Market position) = None \<longrightarrow> closeArbitrage env position s = s)
   \<and> (map_of (positions s) (Market position) \<noteq> None \<longrightarrow>
        positions (closeArbitrage env position s) = AList.delete (Market position) (positions s)
        \<and> map_of (positions (closeArbitrage env position s)) (Market position) = None
        \<and> (\<exists>later. newEvents s (closeArbitrage env position s) = Ev_delete (Market position) # later)
        \<and> (\<forall>price. currentPrice (Market position) = Some price \<longrightarrow>
             (\<exists>longErr shortErr.
                longErr = errOf (ClosePosition env (LongExchange position)
                                   (trace s @ [Ev_delete (Market position)])
                                   (Market position) Buy (SizeUSD position / price))
                \<and> shortErr = errOf (ClosePosition env (ShortExchange position)
                                   (trace s @
                                      [Ev_delete (Market position),
                                       Ev_ClosePosition (LongExchange position) (Market position) Buy
                                         (SizeUSD position / price),
                                       Ev_SendPositionNotification ''CLOSE LONG''
                                         (Name env (LongExchange position)) (Market position)
                                         (SizeUSD position) longErr])
                                   (Market position) Sell (SizeUSD position / price))
                \<and> newEvents s (closeArbitrage env position s) =
                    [Ev_delete (Market position),
                     Ev_ClosePosition (LongExchange position) (Market position) Buy
                       (SizeUSD position / price),
                     Ev_SendPositionNotification ''CLOSE LONG''
                       (Name env (LongExchange position)) (Market position)
                       (SizeUSD position) longErr,
                     Ev_ClosePosition (ShortExchange position) (Market position) Sell
                       (SizeUSD position / price),
                     Ev_SendPositionNotification ''CLOSE SHORT''
                       (Name env (ShortExchange position)) (Market position)
                       (SizeUSD position) shortErr])))"
proof (cases "map_of (positions s) (Market position)")
  case None
  then show ?thesis by (simp add: closeArbitrage_absent)
next
  case (Some p)
  note entry = this
  then have present: "map_of (positions s) (Market position) \<noteq> None" by simp
  show ?thesis
  proof (cases "currentPrice (Market position)")
    case None
    show ?thesis
      unfolding closeArbitrage_noPrice [OF present None]
      using entry None by (simp add: newEvents_def delete_conv')
  next
    case (Some price)
    show ?thesis
      unfolding closeArbitrage_priced [OF present Some]
      using entry Some by (simp add: newEvents_def delete_conv')
  qed
qed

theorem closing_sequence_witness:
  "closeArbitrage (exampleVenues (exampleRates 0 0) (\<lambda>_. None) (\<lambda>_. None))
       (examplePosition ''BTC-USD'' Exchange2 Exchange1 20) (exampleStrategy [])
     = exampleStrategy []
   \<and> positions (closeArbitrage
       (exampleVenues (exampleRates 0 0) (\<lambda>_. None)
          (\<lambda>ex. if ex = Exchange2 then Some ''timeout'' else None))
       (examplePosition ''BTC-USD'' Exchange2 Exchange1 20)
       (exampleStrategy [(''BTC-USD'', examplePosition ''BTC-USD'' Exchange2 Exchange1 20)])) = []
   \<and> newEvents (exampleStrategy [(''BTC-USD'', examplePosition ''BTC-USD'' Exchange2 Exchange1 20)])
       (closeArbitrage
          (exampleVenues (exampleRates 0 0) (\<lambda>_. None)
             (\<lambda>ex. if ex = Exchange2 then Some ''timeout'' else None))
          (examplePosition ''BTC-USD'' Exchange2 Exchange1 20)
          (exampleStrategy [(''BTC-USD'', examplePosition ''BTC-USD'' Exchange2 Exchange1 20)]))
     = [Ev_delete ''BTC-USD'',
        Ev_ClosePosition Exchange2 ''BTC-USD'' Buy (20 / 60000),
        Ev_SendPositionNotification ''CLOSE LONG'' ''Extended'' ''BTC-USD'' 20 (Some ''timeout''),
        Ev_ClosePosition Exchange1 ''BTC-USD'' Sell (20 / 60000),
        Ev_SendPositionNotification ''CLOSE SHORT'' ''Lighter'' ''BTC-USD'' 20 None]"
proof -
  let ?p = "examplePosition ''BTC-USD'' Exchange2 Exchange1 20"
  let ?ok = "exampleVenues (exampleRates 0 0) (\<lambda>_. None) (\<lambda>_. None)"
  let ?bad = "exampleVenues (exampleRates 0 0) (\<lambda>_. None)
      (\<lambda>ex. if ex = Exchange2 then Some ''timeout'' else None)"
  have absent: "map_of (positions (exampleStrategy [])) (Market ?p) = None"
    by (simp add: exampleStrategy_def)
  have present: "map_of (positions (exampleStrategy [(''BTC-USD'', ?p)])) (Market ?p) \<noteq> None"
    by (simp add: exampleStrategy_def examplePosition_def)
  have price: "currentPrice (Market ?p) = Some 60000"
    by (simp add: currentPrice_def examplePosition_def)
  show ?thesis
    using closing_sequence [of "exampleStrategy []" ?p ?ok] absent
      closing_sequence [of "exampleStrategy [(''BTC-USD'', ?p)]" ?p ?bad] present price
    by (simp add: exampleVenues_def errOf_def)
      (simp add: examplePosition_def exampleStrategy_def)
qed

text \<open>
  Claim C10 (close without a price). When the position's market has an entry in the ledger
  and no placeholder price, which is the case of every market other than \<^verbatim>\<open>BTC-USD\<close> and
  \<^verbatim>\<open>ETH-USD\<close>, the close removes the entry and returns: the removal is its only event, so
  neither venue receives a closing call.
\<close>

theorem close_without_price:
  assumes "map_of (positions s) (Market position) \<noteq> None"
    and "currentPrice (Market position) = None"
  shows "closeArbitrage env position s =
           s\<lparr>positions := AList.delete (Market position) (positions s),
             trace := trace s @ [Ev_delete (Market position)]\<rparr>
       \<and> map_of (positions (closeArbitrage env position s)) (Market position) = None
       \<and> newEvents s (closeArbitrage env position s) = [Ev_delete (Market position)]
       \<and> Market position \<noteq> ''BTC-USD'' \<and> Market position \<noteq> ''ETH-USD''"
proof -
  have "Market position \<noteq> ''BTC-USD'' \<and> Market position \<noteq> ''ETH-USD''"
    using assms(2) by (auto simp: currentPrice_def split: if_splits)
  then show ?thesis
    by (simp add: closeArbitrage_noPrice [OF assms] newEvents_def delete_conv')
qed

theorem close_without_price_witness:
  "closeArbitrage (exampleVenues (exampleRates 0 0) (\<lambda>_. None) (\<lambda>_. None))
       (examplePosition ''SOL-USD'' Exchange2 Exchange1 20)
       (exampleStrategy [(''SOL-USD'', examplePosition ''SOL-USD'' Exchange2 Exchange1 20)])
     = \<lparr>config = exampleConfig, positions = [], trace = [Ev_delete ''SOL-USD'']\<rparr>"
proof -
  let ?p = "examplePosition ''SOL-USD'' Exchange2 Exchange1 20"
  have present: "map_of (positions (exampleStrategy [(''SOL-USD'', ?p)])) (Market ?p) \<noteq> None"
    by (simp add: exampleStrategy_def examplePosition_def)
  have noPrice: "currentPrice (Market ?p) = None"
    by (simp add: currentPrice_def examplePosition_def)
  show ?thesis
    using close_without_price [OF present noPrice,
        of "exampleVenues (exampleRates 0 0) (\<lambda>_. None) (\<lambda>_. None)"]
    by (simp add: exampleStrategy_def examplePosition_def)
qed

section \<open>A cycle\<close>

text \<open>
  Claim C6 (fetch failure). When the rate query to \<open>Exchange1\<close> fails, the cycle ends
  with that query as its only event; when it succeeds and the query to \<open>Exchange2\<close>
  fails, the cycle ends with the two queries as its only events. In both cases the
  configuration and the ledger are the ones before the cycle, no market is evaluated and
  no order is placed; the next tick runs \<^verbatim>\<open>checkFundingRates\<close> again from that state.
\<close>

theorem fetch_failure:
  "(\<forall>err. GetFundingRates env Exchange1 (trace s) = Inl err \<longrightarrow>
      checkFundingRates env s = s\<lparr>trace := trace s @ [Ev_GetFundingRates Exchange1]\<rparr>)
   \<and> (\<forall>rates1 err.
        GetFundingRates env Exchange1 (trace s) = Inr rates1
        \<and> GetFundingRates env Exchange2 (trace s @ [Ev_GetFundingRates Exchange1]) = Inl err \<longrightarrow>
        checkFundingRates env s =
          s\<lparr>trace := trace s @ [Ev_GetFundingRates Exchange1, Ev_GetFundingRates Exchange2]\<rparr>)"
  by (simp add: checkFundingRates_def Let_def emit_def)

theorem fetch_failure_witness:
  "checkFundingRates
      (exampleVenues (\<lambda>ex. Inl ''unavailable'') (\<lambda>_. None) (\<lambda>_. None))
      (exampleStrategy [(''BTC-USD'', examplePosition ''BTC-USD'' Exchange2 Exchange1 20)])
     = \<lparr>config = exampleConfig,
        positions = [(''BTC-USD'', examplePosition ''BTC-USD'' Exchange2 Exchange1 20)],
        trace = [Ev_GetFundingRates Exchange1]\<rparr>
   \<and> checkFundingRates
      (exampleVenues (\<lambda>ex. if ex = Exchange2 then Inl ''unavailable''
                            else exampleRates (1 / 10000) (5 / 10000) ex) (\<lambda>_. None) (\<lambda>_. None))
      (exampleStrategy [(''BTC-USD'', examplePosition ''BTC-USD'' Exchange2 Exchange1 20)])
     = \<lparr>config = exampleConfig,
        positions = [(''BTC-USD'', examplePosition ''BTC-USD'' Exchange2 Exchange1 20)],
        trace = [Ev_GetFundingRates Exchange1, Ev_GetFundingRates Exchange2]\<rparr>"
  using fetch_failure [of "exampleVenues (\<lambda>ex. Inl ''unavailable'') (\<lambda>_. None) (\<lambda>_. None)"
      "exampleStrategy [(''BTC-USD'', examplePosition ''BTC-USD'' Exchange2 Exchange1 20)]"]
    fetch_failure [of "exampleVenues (\<lambda>ex. if ex = Exchange2 then Inl ''unavailable''
                            else exampleRates (1 / 10000) (5 / 10000) ex) (\<lambda>_. None) (\<lambda>_. None)"
      "exampleStrategy [(''BTC-USD'', examplePosition ''BTC-USD'' Exchange2 Exchange1 20)]"]
  by (simp add: exampleVenues_def exampleStrategy_def exampleRates_def)

section \<open>The ledger\<close>

text \<open>
  Claim C1 (one position for a market). After any number of cycles from the strategy that
  \<^verbatim>\<open>NewFundingRateArb\<close> builds, whatever the venues answer, the ledger has no key twice and
  at most one \<^verbatim>\<open>PositionInfo\<close> naming a given market. When the ledger holds a position
  for a market, \<^verbatim>\<open>executeArbitrage\<close> for that market returns the strategy as it was
  (its guard looks the market up again before anything else), and the iteration of the
  loop for that market places no order.
\<close>

theorem one_position_per_market:
  "distinct (map fst (positions (Run env n (NewFundingRateArb cfg))))
   \<and> length (filter (\<lambda>entry. Market (snd entry) = market)
               (positions (Run env n (NewFundingRateArb cfg)))) \<le> 1
   \<and> (map_of (positions s) market \<noteq> None \<longrightarrow>
        executeArbitrage env market longEx shortEx rateDiff s = s
        \<and> placedOrders (newEvents s (checkMarkets env rates1Map rates2Map [market] s)) = [])"
proof (intro conjI impI)
  have inv: "ledgerInv (positions (Run env n (NewFundingRateArb cfg)))"
    by (rule ledgerInv_Run) (simp add: NewFundingRateArb_def ledgerInv_empty)
  then show "distinct (map fst (positions (Run env n (NewFundingRateArb cfg))))"
    by (simp add: ledgerInv_def)
  from inv show "length (filter (\<lambda>entry. Market (snd entry) = market)
               (positions (Run env n (NewFundingRateArb cfg)))) \<le> 1"
    by (rule ledgerInv_one_per_market)
next
  assume present: "map_of (positions s) market \<noteq> None"
  then show "executeArbitrage env market longEx shortEx rateDiff s = s"
    by (rule executeArbitrage_exists)
  show "placedOrders (newEvents s (checkMarkets env rates1Map rates2Map [market] s)) = []"
    by (cases "rates1Map market"; cases "rates2Map market")
       (simp_all add: newEvents_same placedOrders_perform_present [OF present])
qed

theorem one_position_per_market_witness:
  "positions (Run (exampleVenues (exampleRates (5 / 10000) (1 / 10000)) (\<lambda>_. None) (\<lambda>_. None))
       (Suc 0) (NewFundingRateArb exampleConfig))
     = [(''BTC-USD'', examplePosition ''BTC-USD'' Exchange2 Exchange1 20)]
   \<and> length (filter (\<lambda>entry. Market (snd entry) = ''BTC-USD'')
        (positions (Run (exampleVenues (exampleRates (5 / 10000) (1 / 10000)) (\<lambda>_. None) (\<lambda>_. None))
           (Suc (Suc 0)) (NewFundingRateArb exampleConfig)))) \<le> 1
   \<and> executeArbitrage (exampleVenues (exampleRates (5 / 10000) (1 / 10000)) (\<lambda>_. None) (\<lambda>_. None))
       ''BTC-USD'' Exchange2 Exchange1 (4 / 10000)
       (exampleStrategy [(''BTC-USD'', examplePosition ''BTC-USD'' Exchange2 Exchange1 20)])
     = exampleStrategy [(''BTC-USD'', examplePosition ''BTC-USD'' Exchange2 Exchange1 20)]
   \<and> placedOrders (newEvents
        (exampleStrategy [(''BTC-USD'', examplePosition ''BTC-USD'' Exchange2 Exchange1 20)])
        (checkMarkets (exampleVenues (exampleRates (5 / 10000) (1 / 10000)) (\<lambda>_. None) (\<lambda>_. None))
           [''BTC-USD'' \<mapsto> 5 / 10000] [''BTC-USD'' \<mapsto> 1 / 10000] [''BTC-USD'']
           (exampleStrategy [(''BTC-USD'', examplePosition ''BTC-USD'' Exchange2 Exchange1 20)])))
     = []"
proof -
  let ?env = "exampleVenues (exampleRates (5 / 10000) (1 / 10000)) (\<lambda>_. None) (\<lambda>_. None)"
  let ?p = "examplePosition ''BTC-USD'' Exchange2 Exchange1 20"
  have first: "positions (Run ?env (Suc 0) (NewFundingRateArb exampleConfig)) = [(''BTC-USD'', ?p)]"
    unfolding Run.simps example_cycle by simp
  have present: "map_of (positions (exampleStrategy [(''BTC-USD'', ?p)])) ''BTC-USD'' \<noteq> None"
    by (simp add: exampleStrategy_def)
  show ?thesis
    using first present
      one_position_per_market [of ?env "Suc (Suc 0)" exampleConfig "''BTC-USD''"
        "exampleStrategy [(''BTC-USD'', ?p)]" Exchange2 Exchange1 "4 / 10000"
        "[''BTC-USD'' \<mapsto> 5 / 10000]" "[''BTC-USD'' \<mapsto> 1 / 10000]"]
    by simp
qed

end
